theory Spec2Isabelle
  imports Complex_Main
begin

section \<open>Python values, exceptions and outcomes\<close>

text \<open>
  The solver of \<^verbatim>\<open>kanisa/optim/core/BaseSolver.py\<close> is dynamically typed: every
  argument of \<^verbatim>\<open>build\<close> and \<^verbatim>\<open>compute\<close> may be any Python object. The
  fragment of Python's values modelled here is: \<^verbatim>\<open>None\<close>, booleans, integers,
  floats (the real number a float denotes, or an infinity, or NaN), strings, lists,
  tuples and callables. A callable is a pure function of one argument (of type \<open>'x\<close>,
  the decision vector) that returns a value or raises.
\<close>

datatype exn_class = ValueError | TypeError | NotImplementedError | IndexError | AttributeError

text \<open>
  An exception is its class and its message. The two \<^verbatim>\<open>ValueError\<close>s and the
  \<^verbatim>\<open>NotImplementedError\<close> of \<^verbatim>\<open>compute\<close> carry the source's message; an
  error raised by the interpreter itself (\<^verbatim>\<open>len(5)\<close>, \<^verbatim>\<open>for g in 5\<close>,
  \<^verbatim>\<open>None >= 1\<close>, a missing attribute) carries the empty message, its text not
  being modelled.
\<close>

datatype exn = Exn (exn_class: exn_class) (exn_msg: string)

datatype pyfloat = Finite real | PosInf | NegInf | NaN

datatype 'x pyval =
    PNone
  | PBool bool
  | PInt int
  | PFloat pyfloat
  | PStr string
  | PList "'x pyval list"
  | PTuple "'x pyval list"
  | PFun "'x \<Rightarrow> exn + 'x pyval"

datatype 'a outcome = Return 'a | Raise exn

definition interp_type_error :: exn where
  "interp_type_error = Exn TypeError []"

fun is_None :: "'x pyval \<Rightarrow> bool" where
  "is_None PNone = True"
| "is_None _ = False"

text \<open>\<^verbatim>\<open>callable(v)\<close>\<close>

fun callable :: "'x pyval \<Rightarrow> bool" where
  "callable (PFun f) = True"
| "callable _ = False"

text \<open>Truth value of an object, as \<^verbatim>\<open>a or b\<close> and \<^verbatim>\<open>if a:\<close> test it.\<close>

fun truthy :: "'x pyval \<Rightarrow> bool" where
  "truthy PNone = False"
| "truthy (PBool b) = b"
| "truthy (PInt n) = (n \<noteq> 0)"
| "truthy (PFloat (Finite r)) = (r \<noteq> 0)"
| "truthy (PFloat _) = True"
| "truthy (PStr s) = (s \<noteq> [])"
| "truthy (PList vs) = (vs \<noteq> [])"
| "truthy (PTuple vs) = (vs \<noteq> [])"
| "truthy (PFun f) = True"

text \<open>\<^verbatim>\<open>a or b\<close>\<close>

definition py_or :: "'x pyval \<Rightarrow> 'x pyval \<Rightarrow> 'x pyval" where
  "py_or a b = (if truthy a then a else b)"

text \<open>\<^verbatim>\<open>len(v)\<close>: defined on strings, lists and tuples, a \<^verbatim>\<open>TypeError\<close> otherwise.\<close>

fun py_len :: "'x pyval \<Rightarrow> exn + nat" where
  "py_len (PStr s) = Inr (length s)"
| "py_len (PList vs) = Inr (length vs)"
| "py_len (PTuple vs) = Inr (length vs)"
| "py_len _ = Inl interp_type_error"

text \<open>
  The elements a \<^verbatim>\<open>for\<close> loop over \<open>v\<close> visits: those of a list or tuple, the
  one-character strings of a string; a \<^verbatim>\<open>TypeError\<close> when \<open>v\<close> is not iterable.
\<close>

fun py_iter :: "'x pyval \<Rightarrow> exn + 'x pyval list" where
  "py_iter (PStr s) = Inr (map (\<lambda>c. PStr [c]) s)"
| "py_iter (PList vs) = Inr vs"
| "py_iter (PTuple vs) = Inr vs"
| "py_iter _ = Inl interp_type_error"

text \<open>\<^verbatim>\<open>isinstance(v, list)\<close> and \<^verbatim>\<open>isinstance(v, (list, tuple))\<close>\<close>

fun is_list :: "'x pyval \<Rightarrow> bool" where
  "is_list (PList vs) = True"
| "is_list _ = False"

fun is_list_or_tuple :: "'x pyval \<Rightarrow> bool" where
  "is_list_or_tuple (PList vs) = True"
| "is_list_or_tuple (PTuple vs) = True"
| "is_list_or_tuple _ = False"

text \<open>\<^verbatim>\<open>g(x)\<close>: calling a value that is not callable is a \<^verbatim>\<open>TypeError\<close>.\<close>

fun py_call :: "'x pyval \<Rightarrow> 'x \<Rightarrow> exn + 'x pyval" where
  "py_call (PFun f) x = f x"
| "py_call _ x = Inl interp_type_error"

text \<open>
  The number a numeric object denotes (\<^verbatim>\<open>True\<close> is 1 and \<^verbatim>\<open>False\<close> is 0);
  Python compares integers and floats by their exact values.
\<close>

fun num_of :: "'x pyval \<Rightarrow> pyfloat option" where
  "num_of (PBool b) = Some (Finite (if b then 1 else 0))"
| "num_of (PInt n) = Some (Finite (of_int n))"
| "num_of (PFloat f) = Some f"
| "num_of _ = None"

fun fl_gt :: "pyfloat \<Rightarrow> real \<Rightarrow> bool" where
  "fl_gt (Finite r) c = (r > c)"
| "fl_gt PosInf c = True"
| "fl_gt NegInf c = False"
| "fl_gt NaN c = False"

fun fl_ge :: "pyfloat \<Rightarrow> real \<Rightarrow> bool" where
  "fl_ge (Finite r) c = (r \<ge> c)"
| "fl_ge PosInf c = True"
| "fl_ge NegInf c = False"
| "fl_ge NaN c = False"

text \<open>
  \<^verbatim>\<open>v > c\<close> and \<^verbatim>\<open>v >= c\<close> for a finite numeric constant \<open>c\<close>: a
  \<^verbatim>\<open>TypeError\<close> when \<open>v\<close> is not a number.
\<close>

definition py_gt :: "'x pyval \<Rightarrow> real \<Rightarrow> exn + bool" where
  "py_gt v c = (case num_of v of None \<Rightarrow> Inl interp_type_error | Some a \<Rightarrow> Inr (fl_gt a c))"

definition py_ge :: "'x pyval \<Rightarrow> real \<Rightarrow> exn + bool" where
  "py_ge v c = (case num_of v of None \<Rightarrow> Inl interp_type_error | Some a \<Rightarrow> Inr (fl_ge a c))"

text \<open>\<^verbatim>\<open>abs(v)\<close>\<close>

fun py_abs :: "'x pyval \<Rightarrow> exn + 'x pyval" where
  "py_abs (PBool b) = Inr (PInt (if b then 1 else 0))"
| "py_abs (PInt n) = Inr (PInt \<bar>n\<bar>)"
| "py_abs (PFloat (Finite r)) = Inr (PFloat (Finite \<bar>r\<bar>))"
| "py_abs (PFloat PosInf) = Inr (PFloat PosInf)"
| "py_abs (PFloat NegInf) = Inr (PFloat PosInf)"
| "py_abs (PFloat NaN) = Inr (PFloat NaN)"
| "py_abs _ = Inl interp_type_error"

text \<open>
  The float literal \<^verbatim>\<open>1e-6\<close>: the double nearest to \<open>10\<^sup>-\<^sup>6\<close>, which is
  \<open>4722366482869645 / 2\<^sup>7\<^sup>2\<close> (\<^verbatim>\<open>0x1.0c6f7a0b5ed8dp-20\<close>).
\<close>

definition tol :: real where
  "tol = 4722366482869645 / 2 ^ 72"

section \<open>The solver object\<close>

text \<open>
  The instance attributes that \<^verbatim>\<open>__init__\<close> assigns. \<^verbatim>\<open>params\<close> is a dictionary
  with string keys; every other attribute holds a Python value.
\<close>

record 'x solver =
  params :: "string \<rightharpoonup> 'x pyval"
  max_iter :: "'x pyval"
  verbosity :: "'x pyval"
  seed :: "'x pyval"
  objective :: "'x pyval"
  bounds :: "'x pyval"
  dim :: "'x pyval"
  ineq_constraints :: "'x pyval"
  eq_constraints :: "'x pyval"

text \<open>The class attributes \<^verbatim>\<open>DEFAULTS\<close> and \<^verbatim>\<open>REQUIRED\<close>.\<close>

definition DEFAULTS :: "string \<rightharpoonup> 'x pyval" where
  "DEFAULTS =
     [''max_iter'' \<mapsto> PInt 200,
      ''max_stall_iter'' \<mapsto> PFloat PosInf,
      ''verbosity'' \<mapsto> PInt 1,
      ''seed'' \<mapsto> PNone]"

definition REQUIRED :: "string list" where
  "REQUIRED = [''objective'', ''bounds'']"

text \<open>
  \<^verbatim>\<open>params["k"]\<close> for a key that \<^verbatim>\<open>DEFAULTS\<close> holds; the merged dictionary
  holds it too, so the \<^verbatim>\<open>KeyError\<close> branch is not reached from \<^verbatim>\<open>__init__\<close>.
\<close>

definition subscript :: "(string \<rightharpoonup> 'x pyval) \<Rightarrow> string \<Rightarrow> 'x pyval" where
  "subscript d k = (case d k of Some v \<Rightarrow> v | None \<Rightarrow> PNone)"

text \<open>
  \<^verbatim>\<open>__init__(self, hyper_params=None)\<close>: \<^verbatim>\<open>hyper_params or {}\<close> turns
  \<^verbatim>\<open>None\<close> (and the empty dictionary) into \<^verbatim>\<open>{}\<close>, and
  \<^verbatim>\<open>{**DEFAULTS, **hyper_params}\<close> lets the supplied keys win.
\<close>

definition hyper_or_empty :: "(string \<rightharpoonup> 'x pyval) option \<Rightarrow> (string \<rightharpoonup> 'x pyval)" where
  "hyper_or_empty hp = (case hp of None \<Rightarrow> Map.empty | Some m \<Rightarrow> m)"

definition init :: "(string \<rightharpoonup> 'x pyval) option \<Rightarrow> 'x solver" where
  "init hyper_params =
     (let ps = DEFAULTS ++ hyper_or_empty hyper_params
      in \<lparr> params = ps,
           max_iter = subscript ps ''max_iter'',
           verbosity = subscript ps ''verbosity'',
           seed = subscript ps ''seed'',
           objective = PNone,
           bounds = PNone,
           dim = PNone,
           ineq_constraints = PList [],
           eq_constraints = PList [] \<rparr>)"

section \<open>Constraint checking\<close>

text \<open>
  One pass of a loop \<^verbatim>\<open>for g in gs: if test(g): return False\<close>: \<open>Inr True\<close> when
  some test held (the loop returned), \<open>Inr False\<close> when the loop ran to its end, and
  the exception when a test raised before either.
\<close>

fun first_violation :: "('a \<Rightarrow> exn + bool) \<Rightarrow> 'a list \<Rightarrow> exn + bool" where
  "first_violation t [] = Inr False"
| "first_violation t (g # gs) =
     (case t g of
        Inl e \<Rightarrow> Inl e
      | Inr True \<Rightarrow> Inr True
      | Inr False \<Rightarrow> first_violation t gs)"

text \<open>\<^verbatim>\<open>g(x) > 0\<close>\<close>

definition ineq_violated :: "'x \<Rightarrow> 'x pyval \<Rightarrow> exn + bool" where
  "ineq_violated x g = (case py_call g x of Inl e \<Rightarrow> Inl e | Inr v \<Rightarrow> py_gt v 0)"

text \<open>\<^verbatim>\<open>abs(h(x)) > 1e-6\<close>\<close>

definition eq_violated :: "'x \<Rightarrow> 'x pyval \<Rightarrow> exn + bool" where
  "eq_violated x h =
     (case py_call h x of
        Inl e \<Rightarrow> Inl e
      | Inr v \<Rightarrow> (case py_abs v of Inl e \<Rightarrow> Inl e | Inr a \<Rightarrow> py_gt a tol))"

text \<open>
  The statement \<^verbatim>\<open>for g in v: if test(g): return False\<close> as a whole: obtaining
  the iterator raises when \<open>v\<close> is not iterable, before any test runs.
\<close>

definition for_loop :: "'x pyval \<Rightarrow> ('x pyval \<Rightarrow> exn + bool) \<Rightarrow> exn + bool" where
  "for_loop v t = (case py_iter v of Inl e \<Rightarrow> Inl e | Inr vs \<Rightarrow> first_violation t vs)"

definition check_constraints :: "'x solver \<Rightarrow> 'x \<Rightarrow> bool outcome" where
  "check_constraints self x =
     (case for_loop (ineq_constraints self) (ineq_violated x) of
        Inl e \<Rightarrow> Raise e
      | Inr True \<Rightarrow> Return False
      | Inr False \<Rightarrow>
          (case for_loop (eq_constraints self) (eq_violated x) of
             Inl e \<Rightarrow> Raise e
           | Inr True \<Rightarrow> Return False
           | Inr False \<Rightarrow> Return True))"

text \<open>
  What the specification's \<open>g\<^sub>i(x)\<close> and \<open>h\<^sub>j(x)\<close> stand for: the constraint, called
  on \<open>x\<close>, returns the finite number \<open>r\<close>, as a float or as an integer.
\<close>

abbreviation returns_number :: "'x pyval \<Rightarrow> 'x \<Rightarrow> real \<Rightarrow> bool" where
  "returns_number g x r \<equiv>
     py_call g x = Inr (PFloat (Finite r)) \<or> (\<exists>n. py_call g x = Inr (PInt n) \<and> r = of_int n)"

section \<open>Loading and validating a problem\<close>

text \<open>
  What \<^verbatim>\<open>build\<close> prints, one constructor for each \<^verbatim>\<open>print\<close> call of the
  source, with the values the line formats; the text itself is not modelled.
\<close>

datatype 'x diag =
    MissingFields "string list"
  | ObjectiveNotCallable
  | BoundsNotList
  | BoundNotPair
  | IneqNotCallable
  | EqNotCallable
  | SummaryHeader
  | SummaryDim "'x pyval"
  | SummaryMaxIter "'x pyval"
  | SummaryIneq nat
  | SummaryEq nat
  | SummaryBounds "'x pyval"
  | SummaryFooter

text \<open>The dictionary \<^verbatim>\<open>problem_data\<close> of \<^verbatim>\<open>build\<close>.\<close>

definition problem_data ::
  "'x pyval \<Rightarrow> 'x pyval \<Rightarrow> 'x pyval \<Rightarrow> 'x pyval \<Rightarrow> (string \<rightharpoonup> 'x pyval)" where
  "problem_data objective' bounds' ineq eq =
     [''objective'' \<mapsto> objective',
      ''bounds'' \<mapsto> bounds',
      ''ineq_constraints'' \<mapsto> py_or ineq (PList []),
      ''eq_constraints'' \<mapsto> py_or eq (PList [])]"

text \<open>\<^verbatim>\<open>field not in problem_data or problem_data[field] is None\<close>\<close>

definition field_missing :: "(string \<rightharpoonup> 'x pyval) \<Rightarrow> string \<Rightarrow> bool" where
  "field_missing pd field = (case pd field of None \<Rightarrow> True | Some v \<Rightarrow> is_None v)"

definition missing_fields :: "(string \<rightharpoonup> 'x pyval) \<Rightarrow> string list" where
  "missing_fields pd = filter (field_missing pd) REQUIRED"

text \<open>\<^verbatim>\<open>not isinstance(pair, (list, tuple)) or len(pair) != 2\<close>\<close>

definition bad_pair :: "'x pyval \<Rightarrow> bool" where
  "bad_pair pair = (if \<not> is_list_or_tuple pair then True else py_len pair \<noteq> Inr 2)"

text \<open>
  The summary that \<^verbatim>\<open>build\<close> prints when \<^verbatim>\<open>self.verbosity >= 1\<close>, and its
  \<^verbatim>\<open>return True\<close>. The lines are printed one by one, so an exception in
  \<^verbatim>\<open>len\<close> leaves the earlier lines printed.
\<close>

definition summary :: "'x solver \<Rightarrow> bool outcome \<times> 'x solver \<times> 'x diag list" where
  "summary self =
     (case py_ge (verbosity self) 1 of
        Inl e \<Rightarrow> (Raise e, self, [])
      | Inr False \<Rightarrow> (Return True, self, [])
      | Inr True \<Rightarrow>
          (let out = [SummaryHeader, SummaryDim (dim self), SummaryMaxIter (max_iter self)]
           in case py_len (ineq_constraints self) of
                Inl e \<Rightarrow> (Raise e, self, out)
              | Inr n \<Rightarrow>
                  (case py_len (eq_constraints self) of
                     Inl e \<Rightarrow> (Raise e, self, out @ [SummaryIneq n])
                   | Inr m \<Rightarrow>
                       (Return True, self,
                        out @ [SummaryIneq n, SummaryEq m, SummaryBounds (bounds self),
                               SummaryFooter]))))"

text \<open>
  The compliance checks of \<^verbatim>\<open>build\<close>, which read the attributes that
  \<^verbatim>\<open>build\<close> has just stored.
\<close>

definition compliance :: "'x solver \<Rightarrow> bool outcome \<times> 'x solver \<times> 'x diag list" where
  "compliance self =
     (if \<not> callable (objective self) then (Return False, self, [ObjectiveNotCallable])
      else if \<not> is_list (bounds self) then (Return False, self, [BoundsNotList])
      else
        (case for_loop (bounds self) (\<lambda>pair. Inr (bad_pair pair)) of
           Inl e \<Rightarrow> (Raise e, self, [])
         | Inr True \<Rightarrow> (Return False, self, [BoundNotPair])
         | Inr False \<Rightarrow>
             (case for_loop (ineq_constraints self) (\<lambda>g. Inr (\<not> callable g)) of
                Inl e \<Rightarrow> (Raise e, self, [])
              | Inr True \<Rightarrow> (Return False, self, [IneqNotCallable])
              | Inr False \<Rightarrow>
                  (case for_loop (eq_constraints self) (\<lambda>h. Inr (\<not> callable h)) of
                     Inl e \<Rightarrow> (Raise e, self, [])
                   | Inr True \<Rightarrow> (Return False, self, [EqNotCallable])
                   | Inr False \<Rightarrow> summary self))))"

text \<open>
  \<^verbatim>\<open>build(self, objective, bounds, ineq_constraints=None, eq_constraints=None)\<close>:
  the outcome, the solver afterwards and what was printed. The four attributes are
  assigned before \<^verbatim>\<open>len(bounds)\<close> is taken, and all five before any compliance
  check.
\<close>

definition build ::
  "'x solver \<Rightarrow> 'x pyval \<Rightarrow> 'x pyval \<Rightarrow> 'x pyval \<Rightarrow> 'x pyval
   \<Rightarrow> bool outcome \<times> 'x solver \<times> 'x diag list" where
  "build self objective' bounds' ineq eq =
     (let missing = missing_fields (problem_data objective' bounds' ineq eq)
      in if missing \<noteq> [] then (Return False, self, [MissingFields missing])
         else
           (let self1 = self\<lparr> objective := objective',
                               bounds := bounds',
                               ineq_constraints := py_or ineq (PList []),
                               eq_constraints := py_or eq (PList []) \<rparr>
            in case py_len bounds' of
                 Inl e \<Rightarrow> (Raise e, self1, [])
               | Inr n \<Rightarrow> compliance (self1\<lparr> dim := PInt (int n) \<rparr>)))"

section \<open>Running the solver\<close>

definition build_failed_msg :: string where
  "build_failed_msg = ''Build failed: invalid problem specification.''"

definition no_problem_msg :: string where
  "no_problem_msg =
     ''No optimisation problem loaded.\<newline>Call solver.build() or provide data to solver.compute().''"

definition must_override_msg :: string where
  "must_override_msg = ''Child solver classes must override compute() with algorithm logic.''"

text \<open>
  The part of \<^verbatim>\<open>compute\<close> after the optional rebuild: the test of
  \<^verbatim>\<open>self.objective is None\<close> and the final \<^verbatim>\<open>raise\<close>. The base class never
  returns a value.
\<close>

definition run :: "'x solver \<Rightarrow> 'x diag list \<Rightarrow> unit outcome \<times> 'x solver \<times> 'x diag list" where
  "run self out =
     (if is_None (objective self) then (Raise (Exn ValueError no_problem_msg), self, out)
      else (Raise (Exn NotImplementedError must_override_msg), self, out))"

definition compute ::
  "'x solver \<Rightarrow> 'x pyval \<Rightarrow> 'x pyval \<Rightarrow> 'x pyval \<Rightarrow> 'x pyval
   \<Rightarrow> unit outcome \<times> 'x solver \<times> 'x diag list" where
  "compute self objective' bounds' ineq eq =
     (if \<not> is_None objective' then
        (case build self objective' bounds' ineq eq of
           (Raise e, self', out) \<Rightarrow> (Raise e, self', out)
         | (Return ok, self', out) \<Rightarrow>
             if \<not> ok then (Raise (Exn ValueError build_failed_msg), self', out)
             else run self' out)
      else run self [])"

text \<open>The three components of what an operation yields.\<close>

definition outcome_of :: "'a outcome \<times> 'x solver \<times> 'x diag list \<Rightarrow> 'a outcome" where
  "outcome_of r = fst r"

definition solver_of :: "'a outcome \<times> 'x solver \<times> 'x diag list \<Rightarrow> 'x solver" where
  "solver_of r = fst (snd r)"

definition printed_of :: "'a outcome \<times> 'x solver \<times> 'x diag list \<Rightarrow> 'x diag list" where
  "printed_of r = snd (snd r)"

text \<open>The class of the exception an operation ended with, if it raised.\<close>

fun raised_class :: "'a outcome \<Rightarrow> exn_class option" where
  "raised_class (Raise e) = Some (exn_class e)"
| "raised_class (Return v) = None"

section \<open>Attribute access\<close>

text \<open>
  What \<^verbatim>\<open>solver.name\<close> reads: the instance's own attributes first (those that
  \<^verbatim>\<open>__init__\<close> assigned; \<^verbatim>\<open>build\<close> assigns to five of them and adds none), then
  the names bound in the body of \<^verbatim>\<open>class BaseSolver\<close>, and an
  \<^verbatim>\<open>AttributeError\<close> otherwise. The double-underscore names that every Python
  object inherits are left out.
\<close>

datatype 'x attr =
    Value "'x pyval"
  | Dict "string \<rightharpoonup> 'x pyval"
  | Names "string list"
  | Method string

definition instance_dict :: "'x solver \<Rightarrow> (string \<rightharpoonup> 'x attr)" where
  "instance_dict self =
     [''params'' \<mapsto> Dict (params self),
      ''max_iter'' \<mapsto> Value (max_iter self),
      ''verbosity'' \<mapsto> Value (verbosity self),
      ''seed'' \<mapsto> Value (seed self),
      ''objective'' \<mapsto> Value (objective self),
      ''bounds'' \<mapsto> Value (bounds self),
      ''dim'' \<mapsto> Value (dim self),
      ''ineq_constraints'' \<mapsto> Value (ineq_constraints self),
      ''eq_constraints'' \<mapsto> Value (eq_constraints self)]"

definition class_dict :: "string \<rightharpoonup> 'x attr" where
  "class_dict =
     [''DEFAULTS'' \<mapsto> Dict DEFAULTS,
      ''REQUIRED'' \<mapsto> Names REQUIRED,
      ''__init__'' \<mapsto> Method ''__init__'',
      ''check_constraints'' \<mapsto> Method ''check_constraints'',
      ''build'' \<mapsto> Method ''build'',
      ''compute'' \<mapsto> Method ''compute'']"

definition getattr :: "'x solver \<Rightarrow> string \<Rightarrow> exn + 'x attr" where
  "getattr self name =
     (case instance_dict self name of
        Some a \<Rightarrow> Inr a
      | None \<Rightarrow>
          (case class_dict name of
             Some a \<Rightarrow> Inr a
           | None \<Rightarrow> Inl (Exn AttributeError [])))"

section \<open>Sample problems\<close>

text \<open>
  The callables of the specification's examples, on a decision vector that is a list
  of floats: \<^verbatim>\<open>f(x) = x[0]**2\<close>, \<^verbatim>\<open>g(x) = x[0] - 1\<close> and \<^verbatim>\<open>h(x) = x[0]\<close>.
  Indexing the empty list raises \<^verbatim>\<open>IndexError\<close>.
\<close>

fun sample_objective :: "real list \<Rightarrow> exn + real list pyval" where
  "sample_objective [] = Inl (Exn IndexError ''list index out of range'')"
| "sample_objective (a # as) = Inr (PFloat (Finite (a * a)))"

fun sample_ineq :: "real list \<Rightarrow> exn + real list pyval" where
  "sample_ineq [] = Inl (Exn IndexError ''list index out of range'')"
| "sample_ineq (a # as) = Inr (PFloat (Finite (a - 1)))"

fun sample_eq :: "real list \<Rightarrow> exn + real list pyval" where
  "sample_eq [] = Inl (Exn IndexError ''list index out of range'')"
| "sample_eq (a # as) = Inr (PFloat (Finite a))"

text \<open>A constraint with integer values: \<^verbatim>\<open>c(x) = len(x) - 2\<close>.\<close>

fun sample_count :: "real list \<Rightarrow> exn + real list pyval" where
  "sample_count x = Inr (PInt (int (length x) - 2))"

text \<open>A solver with default hyperparameters on which the first example was built.\<close>

definition unit_interval :: "real list pyval" where
  "unit_interval = PList [PTuple [PInt 0, PInt 1]]"

definition built_sample :: "real list solver" where
  "built_sample = solver_of (build (init None) (PFun sample_objective) unit_interval PNone PNone)"

text \<open>The same problem with one inequality and one equality constraint.\<close>

definition constrained_sample :: "real list solver" where
  "constrained_sample =
     solver_of (build (init None) (PFun sample_objective) unit_interval
                  (PList [PFun sample_ineq]) (PList [PFun sample_eq]))"

text \<open>Bounds for three decision variables, pairs given as tuples and as a list.\<close>

definition three_bounds :: "real list pyval" where
  "three_bounds = PList [PTuple [PInt 0, PInt 1], PList [PInt 0, PInt 1],
                         PTuple [PFloat (Finite (- 5)), PFloat (Finite 5)]]"

text \<open>
  A solver with default hyperparameters on which the only call to \<^verbatim>\<open>build\<close> had
  an objective that is not callable.
\<close>

definition failed_sample :: "real list solver" where
  "failed_sample = solver_of (build (init None) (PInt 5) (PList []) PNone PNone)"

section \<open>Auxiliary facts\<close>

lemma first_violation_hit:
  "list_all (\<lambda>p. t p = Inr False) pre \<Longrightarrow> t g = Inr True
   \<Longrightarrow> first_violation t (pre @ g # post) = Inr True"
  by (induction pre) simp_all

lemma first_violation_pass:
  "list_all (\<lambda>p. t p = Inr False) gs \<Longrightarrow> first_violation t gs = Inr False"
  by (induction gs) simp_all

lemma first_violation_total:
  "first_violation (\<lambda>p. Inr (P p)) gs = Inr (list_ex P gs)"
  by (induction gs) (simp_all split: bool.splits)

lemma missing_fields_eq:
  "missing_fields (problem_data obj bnds ineq eq) =
     (if is_None obj then [''objective''] else []) @ (if is_None bnds then [''bounds''] else [])"
  by (simp add: missing_fields_def problem_data_def REQUIRED_def field_missing_def)

lemma py_len_of_iter: "py_iter v = Inr vs \<Longrightarrow> py_len v = Inr (length vs)"
  by (cases v) auto

lemma list_ex_none: "list_all (\<lambda>p. \<not> P p) xs \<Longrightarrow> \<not> list_ex P xs"
  by (induction xs) simp_all

lemma list_ex_not_callable: "list_all callable xs \<Longrightarrow> \<not> list_ex (\<lambda>g. \<not> callable g) xs"
  by (induction xs) simp_all

lemma loop_pairs_ok:
  "list_all (\<lambda>p. \<not> bad_pair p) bs \<Longrightarrow> for_loop (PList bs) (\<lambda>pair. Inr (bad_pair pair)) = Inr False"
  by (simp add: for_loop_def first_violation_total list_ex_none)

lemma loop_callables_ok:
  "py_iter v = Inr gs \<Longrightarrow> list_all callable gs
   \<Longrightarrow> for_loop v (\<lambda>g. Inr (\<not> callable g)) = Inr False"
  by (simp add: for_loop_def first_violation_total list_ex_not_callable)

lemma summary_ok:
  assumes "py_ge (verbosity self) 1 = Inr v"
    and "py_iter (ineq_constraints self) = Inr gs"
    and "py_iter (eq_constraints self) = Inr hs"
  shows "summary self =
     (Return True, self,
      if v then [SummaryHeader, SummaryDim (dim self), SummaryMaxIter (max_iter self),
                 SummaryIneq (length gs), SummaryEq (length hs), SummaryBounds (bounds self),
                 SummaryFooter]
      else [])"
  using assms by (simp add: summary_def py_len_of_iter)

lemma compliance_ok:
  assumes "callable (objective self)" and "bounds self = PList bs"
    and "list_all (\<lambda>p. \<not> bad_pair p) bs"
    and "py_iter (ineq_constraints self) = Inr gs" and "list_all callable gs"
    and "py_iter (eq_constraints self) = Inr hs" and "list_all callable hs"
  shows "compliance self = summary self"
  using assms by (simp add: compliance_def loop_pairs_ok loop_callables_ok)

lemma run_unbuilt: "is_None (objective self) \<Longrightarrow> run self out = (Raise (Exn ValueError no_problem_msg), self, out)"
  by (simp add: run_def)

lemma run_built: "\<not> is_None (objective self) \<Longrightarrow> run self out = (Raise (Exn NotImplementedError must_override_msg), self, out)"
  by (simp add: run_def)

lemma build_missing:
  "missing_fields (problem_data obj bnds ineq eq) \<noteq> [] \<Longrightarrow>
   build self obj bnds ineq eq =
     (Return False, self, [MissingFields (missing_fields (problem_data obj bnds ineq eq))])"
  by (simp add: build_def Let_def)

lemma compliance_solver: "solver_of (compliance self) = self"
  by (simp add: compliance_def summary_def solver_of_def Let_def
      split: sum.splits bool.splits)

lemma summary_outcome: "outcome_of (summary self) \<noteq> Return False"
  by (simp add: summary_def outcome_of_def Let_def split: sum.splits bool.splits)

lemma compliance_True_callable:
  "outcome_of (compliance self) = Return True \<Longrightarrow> callable (objective self)"
  by (simp add: compliance_def outcome_of_def split: if_splits)

lemma build_present:
  "missing_fields (problem_data obj bnds ineq eq) = [] \<Longrightarrow>
   build self obj bnds ineq eq =
     (case py_len bnds of
        Inl e \<Rightarrow> (Raise e, self\<lparr> objective := obj, bounds := bnds,
             ineq_constraints := py_or ineq (PList []),
             eq_constraints := py_or eq (PList []) \<rparr>, [])
      | Inr n \<Rightarrow> compliance (self\<lparr> objective := obj, bounds := bnds,
             ineq_constraints := py_or ineq (PList []),
             eq_constraints := py_or eq (PList []), dim := PInt (int n) \<rparr>))"
  by (simp add: build_def Let_def)

lemma build_True_callable:
  assumes "outcome_of (build self obj bnds ineq eq) = Return True"
  shows "callable obj \<and> callable (objective (solver_of (build self obj bnds ineq eq)))"
proof (cases "missing_fields (problem_data obj bnds ineq eq) = []")
  case False
  then show ?thesis using assms by (simp add: build_missing outcome_of_def)
next
  case True
  show ?thesis
  proof (cases "py_len bnds")
    case (Inl e)
    then show ?thesis using assms True by (simp add: build_present outcome_of_def)
  next
    case (Inr n)
    then show ?thesis using assms True compliance_True_callable
      by (fastforce simp add: build_present compliance_solver)
  qed
qed

lemma callable_not_None: "callable v \<Longrightarrow> \<not> is_None v"
  by (cases v) simp_all

lemma built_sample_eq:
  "build (init None) (PFun sample_objective) unit_interval PNone PNone =
     (Return True,
      (init None)\<lparr> objective := PFun sample_objective, bounds := unit_interval,
             ineq_constraints := PList [], eq_constraints := PList [], dim := PInt 1 \<rparr>,
      [SummaryHeader, SummaryDim (PInt 1), SummaryMaxIter (PInt 200),
       SummaryIneq 0, SummaryEq 0, SummaryBounds unit_interval, SummaryFooter])"
  by (simp add: build_def missing_fields_eq unit_interval_def compliance_def for_loop_def
      bad_pair_def summary_def py_ge_def py_or_def init_def DEFAULTS_def hyper_or_empty_def
      subscript_def Let_def)

lemma constrained_sample_eq:
  "constrained_sample =
     (init None)\<lparr> objective := PFun sample_objective, bounds := unit_interval,
            ineq_constraints := PList [PFun sample_ineq],
            eq_constraints := PList [PFun sample_eq], dim := PInt 1 \<rparr>"
  by (simp add: constrained_sample_def build_def missing_fields_eq unit_interval_def
      compliance_solver py_or_def Let_def)

lemma failed_sample_build:
  "build (init None :: real list solver) (PInt 5) (PList []) PNone PNone =
     (Return False,
      (init None)\<lparr> objective := PInt 5, bounds := PList [], ineq_constraints := PList [],
             eq_constraints := PList [], dim := PInt 0 \<rparr>,
      [ObjectiveNotCallable])"
  by (simp add: build_def missing_fields_eq compliance_def py_or_def Let_def)

lemma init_objective: "objective (init hp) = PNone"
  by (simp add: init_def Let_def)

lemma msgs_differ: "build_failed_msg \<noteq> no_problem_msg"
  by (simp add: build_failed_msg_def no_problem_msg_def)

lemma ineq_violated_number:
  "returns_number g x r \<Longrightarrow> ineq_violated x g = Inr (r > 0)"
  by (auto simp add: ineq_violated_def py_gt_def)

lemma eq_violated_number:
  "returns_number h x r \<Longrightarrow> eq_violated x h = Inr (\<bar>r\<bar> > 4722366482869645 / 2 ^ 72)"
  by (auto simp add: eq_violated_def py_gt_def tol_def)

lemma ineq_all_satisfied:
  "list_all2 (\<lambda>p v. returns_number p x v \<and> v \<le> 0) gs rs
   \<Longrightarrow> list_all (\<lambda>p. ineq_violated x p = Inr False) gs"
proof (induction gs rs rule: list_all2_induct)
  case Nil
  show ?case by simp
next
  case (Cons p ps v vs)
  then have "ineq_violated x p = Inr (v > 0)" by (intro ineq_violated_number) simp
  with Cons show ?case by simp
qed

lemma eq_all_satisfied:
  "list_all2 (\<lambda>p v. returns_number p x v \<and> \<bar>v\<bar> \<le> 4722366482869645 / 2 ^ 72) hs ss
   \<Longrightarrow> list_all (\<lambda>p. eq_violated x p = Inr False) hs"
proof (induction hs ss rule: list_all2_induct)
  case Nil
  show ?case by simp
next
  case (Cons p ps v vs)
  then have "eq_violated x p = Inr (\<bar>v\<bar> > 4722366482869645 / 2 ^ 72)"
    by (intro eq_violated_number) simp
  with Cons show ?case by simp
qed

lemma check_ineq_hit:
  "py_iter (ineq_constraints self) = Inr (gs1 @ g # gs2)
   \<Longrightarrow> list_all (\<lambda>p. ineq_violated x p = Inr False) gs1
   \<Longrightarrow> ineq_violated x g = Inr True
   \<Longrightarrow> check_constraints self x = Return False"
  by (simp add: check_constraints_def for_loop_def first_violation_hit)

lemma check_eq_hit:
  "py_iter (ineq_constraints self) = Inr gs
   \<Longrightarrow> list_all (\<lambda>p. ineq_violated x p = Inr False) gs
   \<Longrightarrow> py_iter (eq_constraints self) = Inr (hs1 @ h # hs2)
   \<Longrightarrow> list_all (\<lambda>p. eq_violated x p = Inr False) hs1
   \<Longrightarrow> eq_violated x h = Inr True
   \<Longrightarrow> check_constraints self x = Return False"
  by (simp add: check_constraints_def for_loop_def first_violation_hit first_violation_pass)

lemma check_all_pass:
  "py_iter (ineq_constraints self) = Inr gs
   \<Longrightarrow> list_all (\<lambda>p. ineq_violated x p = Inr False) gs
   \<Longrightarrow> py_iter (eq_constraints self) = Inr hs
   \<Longrightarrow> list_all (\<lambda>p. eq_violated x p = Inr False) hs
   \<Longrightarrow> check_constraints self x = Return True"
  by (simp add: check_constraints_def for_loop_def first_violation_pass)

lemma double_1e_6: "\<bar>4722366482869645 / 2 ^ 72 - 1 / 10 ^ 6\<bar> < (1 / 2 ^ 73 :: real)"
  by (simp add: abs_less_iff field_simps)

section \<open>Properties\<close>

text \<open>
  C1, as stated, fails: a \<^verbatim>\<open>build\<close> that fails a type or shape check returns
  \<^verbatim>\<open>False\<close> after it has assigned the attributes. On the solver built from the
  first example, \<^verbatim>\<open>build(5, [])\<close> fails for its objective that is not callable,
  and the stored objective, bounds and dim are those of the failed call.
\<close>

theorem build_failure_overwrites:
  "outcome_of (build (init None) (PFun sample_objective) unit_interval PNone PNone) = Return True
   \<and> outcome_of (build built_sample (PInt 5) (PList []) PNone PNone) = Return False
   \<and> objective (solver_of (build built_sample (PInt 5) (PList []) PNone PNone))
       \<noteq> objective built_sample
   \<and> bounds (solver_of (build built_sample (PInt 5) (PList []) PNone PNone))
       \<noteq> bounds built_sample
   \<and> dim (solver_of (build built_sample (PInt 5) (PList []) PNone PNone))
       \<noteq> dim built_sample"
proof -
  have s1: "built_sample =
      (init None)\<lparr> objective := PFun sample_objective, bounds := unit_interval,
             ineq_constraints := PList [], eq_constraints := PList [], dim := PInt 1 \<rparr>"
    by (simp add: built_sample_def built_sample_eq solver_of_def)
  have f: "build built_sample (PInt 5) (PList []) PNone PNone =
      (Return False,
       built_sample\<lparr> objective := PInt 5, bounds := PList [],
             ineq_constraints := PList [], eq_constraints := PList [], dim := PInt 0 \<rparr>,
       [ObjectiveNotCallable])"
    by (simp add: build_def missing_fields_eq compliance_def py_or_def Let_def)
  show ?thesis
    unfolding f built_sample_eq
    by (simp add: outcome_of_def solver_of_def s1 unit_interval_def)
qed

text \<open>
  C1, amended: a call to \<^verbatim>\<open>build\<close> that fails because a required field is
  missing returns \<^verbatim>\<open>False\<close>, prints the missing fields and leaves the solver (so
  its objective, bounds, ineq_constraints, eq_constraints and dim) exactly as it was.
  A call with every required field present that returns \<^verbatim>\<open>False\<close> has failed a
  type or shape check, and the solver then holds the arguments of that call:
  the objective, the bounds, the constraint lists (\<^verbatim>\<open>[]\<close> for an absent or empty
  one) and \<^verbatim>\<open>dim = len(bounds)\<close>.
\<close>

theorem build_failure_effect:
  "(missing_fields (problem_data obj bnds ineq eq) \<noteq> [] \<longrightarrow>
      build self obj bnds ineq eq =
        (Return False, self, [MissingFields (missing_fields (problem_data obj bnds ineq eq))]))
   \<and> (missing_fields (problem_data obj bnds ineq eq) = []
        \<and> outcome_of (build self obj bnds ineq eq) = Return False \<longrightarrow>
      (\<exists>n. py_len bnds = Inr n
         \<and> solver_of (build self obj bnds ineq eq) =
             self\<lparr> objective := obj, bounds := bnds,
                    ineq_constraints := py_or ineq (PList []),
                    eq_constraints := py_or eq (PList []),
                    dim := PInt (int n) \<rparr>))"
proof (intro conjI impI)
  assume "missing_fields (problem_data obj bnds ineq eq) \<noteq> []"
  then show "build self obj bnds ineq eq =
        (Return False, self, [MissingFields (missing_fields (problem_data obj bnds ineq eq))])"
    by (rule build_missing)
next
  assume a: "missing_fields (problem_data obj bnds ineq eq) = []
        \<and> outcome_of (build self obj bnds ineq eq) = Return False"
  show "\<exists>n. py_len bnds = Inr n
         \<and> solver_of (build self obj bnds ineq eq) =
             self\<lparr> objective := obj, bounds := bnds,
                    ineq_constraints := py_or ineq (PList []),
                    eq_constraints := py_or eq (PList []),
                    dim := PInt (int n) \<rparr>"
  proof (cases "py_len bnds")
    case (Inl e)
    from a have "build self obj bnds ineq eq =
        (Raise e, self\<lparr> objective := obj, bounds := bnds,
             ineq_constraints := py_or ineq (PList []),
             eq_constraints := py_or eq (PList []) \<rparr>, [])"
      using Inl by (simp add: build_present)
    with a show ?thesis by (simp add: outcome_of_def)
  next
    case (Inr n)
    from a have "build self obj bnds ineq eq =
        compliance (self\<lparr> objective := obj, bounds := bnds,
             ineq_constraints := py_or ineq (PList []),
             eq_constraints := py_or eq (PList []), dim := PInt (int n) \<rparr>)"
      using Inr by (simp add: build_present)
    with Inr show ?thesis by (simp add: compliance_solver)
  qed
qed

theorem build_failure_effect_witness:
  "build built_sample PNone unit_interval PNone PNone
     = (Return False, built_sample, [MissingFields [''objective'']])
   \<and> outcome_of (build built_sample (PInt 5) unit_interval PNone PNone) = Return False
   \<and> solver_of (build built_sample (PInt 5) unit_interval PNone PNone)
       = built_sample\<lparr> objective := PInt 5, bounds := unit_interval,
                        ineq_constraints := PList [], eq_constraints := PList [],
                        dim := PInt 1 \<rparr>"
proof -
  have m1: "missing_fields (problem_data PNone unit_interval PNone (PNone :: real list pyval))
              = [''objective'']"
    by (simp add: missing_fields_eq unit_interval_def)
  have m2: "missing_fields (problem_data (PInt 5) unit_interval PNone (PNone :: real list pyval)) = []"
    by (simp add: missing_fields_eq unit_interval_def)
  have f: "outcome_of (build built_sample (PInt 5) unit_interval PNone PNone) = Return False"
    by (simp add: build_def m2 compliance_def outcome_of_def unit_interval_def Let_def)
  have l: "py_len unit_interval = Inr 1"
    by (simp add: unit_interval_def)
  show ?thesis
    using build_failure_effect [of PNone unit_interval PNone PNone built_sample]
      build_failure_effect [of "PInt 5" unit_interval PNone PNone built_sample] m1 m2 f l
    by (simp add: py_or_def)
qed

text \<open>
  C2: \<^verbatim>\<open>check_constraints(x)\<close> evaluates the inequality constraints first, in
  order, and returns \<^verbatim>\<open>False\<close> at the first \<open>g\<close> whose value \<open>g(x)\<close> is positive,
  the earlier ones having values that are not: whatever the later inequality
  constraints and the equality constraints are (they are not evaluated, so they may
  even fail to be callable or iterable). When every inequality constraint has a value
  that is not positive, it evaluates the equality constraints in order and returns
  \<^verbatim>\<open>False\<close> at the first \<open>h\<close> with \<open>\<bar>h(x)\<bar>\<close> above the tolerance, the earlier ones
  being within it. When every inequality value is at most 0 and every equality value
  is within the tolerance, and so when both lists are empty, it returns \<^verbatim>\<open>True\<close>.
  The tolerance is the double that the literal \<^verbatim>\<open>1e-6\<close> denotes,
  \<open>4722366482869645 / 2\<^sup>7\<^sup>2\<close>, which lies within half a unit in the last place of
  \<open>10\<^sup>-\<^sup>6\<close>.
\<close>

theorem check_constraints_short_circuit:
  "(py_iter (ineq_constraints self) = Inr (gs1 @ g # gs2)
      \<and> list_all2 (\<lambda>p v. returns_number p x v \<and> v \<le> 0) gs1 rs1
      \<and> returns_number g x r \<and> r > 0
    \<longrightarrow> check_constraints self x = Return False)
   \<and> (py_iter (ineq_constraints self) = Inr gs
      \<and> list_all2 (\<lambda>p v. returns_number p x v \<and> v \<le> 0) gs rs
      \<and> py_iter (eq_constraints self) = Inr (hs1 @ h # hs2)
      \<and> list_all2 (\<lambda>p v. returns_number p x v \<and> \<bar>v\<bar> \<le> 4722366482869645 / 2 ^ 72) hs1 ss1
      \<and> returns_number h x s \<and> \<bar>s\<bar> > 4722366482869645 / 2 ^ 72
    \<longrightarrow> check_constraints self x = Return False)
   \<and> (py_iter (ineq_constraints self) = Inr gs
      \<and> list_all2 (\<lambda>p v. returns_number p x v \<and> v \<le> 0) gs rs
      \<and> py_iter (eq_constraints self) = Inr hs
      \<and> list_all2 (\<lambda>p v. returns_number p x v \<and> \<bar>v\<bar> \<le> 4722366482869645 / 2 ^ 72) hs ss
    \<longrightarrow> check_constraints self x = Return True)
   \<and> \<bar>4722366482869645 / 2 ^ 72 - 1 / 10 ^ 6\<bar> < (1 / 2 ^ 73 :: real)"
proof (intro conjI impI)
  assume a: "py_iter (ineq_constraints self) = Inr (gs1 @ g # gs2)
      \<and> list_all2 (\<lambda>p v. returns_number p x v \<and> v \<le> 0) gs1 rs1
      \<and> returns_number g x r \<and> r > 0"
  then have "ineq_violated x g = Inr True"
    using ineq_violated_number [of g x r] by simp
  with a show "check_constraints self x = Return False"
    by (intro check_ineq_hit [where ?gs1.0 = gs1 and g = g and ?gs2.0 = gs2]
        ineq_all_satisfied [where rs = rs1]) simp_all
next
  assume a: "py_iter (ineq_constraints self) = Inr gs
      \<and> list_all2 (\<lambda>p v. returns_number p x v \<and> v \<le> 0) gs rs
      \<and> py_iter (eq_constraints self) = Inr (hs1 @ h # hs2)
      \<and> list_all2 (\<lambda>p v. returns_number p x v \<and> \<bar>v\<bar> \<le> 4722366482869645 / 2 ^ 72) hs1 ss1
      \<and> returns_number h x s \<and> \<bar>s\<bar> > 4722366482869645 / 2 ^ 72"
  then have "eq_violated x h = Inr True"
    using eq_violated_number [of h x s] by simp
  with a show "check_constraints self x = Return False"
    by (intro check_eq_hit [where gs = gs and ?hs1.0 = hs1 and h = h and ?hs2.0 = hs2]
        ineq_all_satisfied [where rs = rs] eq_all_satisfied [where ss = ss1]) simp_all
next
  assume a: "py_iter (ineq_constraints self) = Inr gs
      \<and> list_all2 (\<lambda>p v. returns_number p x v \<and> v \<le> 0) gs rs
      \<and> py_iter (eq_constraints self) = Inr hs
      \<and> list_all2 (\<lambda>p v. returns_number p x v \<and> \<bar>v\<bar> \<le> 4722366482869645 / 2 ^ 72) hs ss"
  then show "check_constraints self x = Return True"
    by (intro check_all_pass [where gs = gs and hs = hs]
        ineq_all_satisfied [where rs = rs] eq_all_satisfied [where ss = ss]) simp_all
next
  show "\<bar>4722366482869645 / 2 ^ 72 - 1 / 10 ^ 6\<bar> < (1 / 2 ^ 73 :: real)"
    by (rule double_1e_6)
qed

text \<open>
  The examples: a violated inequality; one followed by an object that is not
  callable, with equality constraints that are not iterable; equality values of both
  signs beyond the tolerance; equality values at the tolerance itself and one unit in
  the last place above it; an inequality value of exactly 0; integer values.
\<close>

theorem check_constraints_short_circuit_witness:
  "check_constraints constrained_sample [2] = Return False
   \<and> check_constraints
        (constrained_sample\<lparr> ineq_constraints := PList [PFun sample_ineq, PInt 7],
                               eq_constraints := PInt 3 \<rparr>) [2] = Return False
   \<and> check_constraints constrained_sample [- 1 / 1024] = Return False
   \<and> check_constraints constrained_sample [1 / 1024] = Return False
   \<and> check_constraints constrained_sample [4722366482869646 / 2 ^ 72] = Return False
   \<and> check_constraints constrained_sample [4722366482869645 / 2 ^ 72] = Return True
   \<and> check_constraints constrained_sample [- 4722366482869645 / 2 ^ 72] = Return True
   \<and> check_constraints constrained_sample [0] = Return True
   \<and> check_constraints (constrained_sample\<lparr> eq_constraints := PList [] \<rparr>) [1] = Return True
   \<and> check_constraints (constrained_sample\<lparr> eq_constraints := PList [] \<rparr>) [1025 / 1024]
       = Return False
   \<and> check_constraints
        (constrained_sample\<lparr> ineq_constraints := PList [PFun sample_count] \<rparr>) [0, 0, 0]
       = Return False
   \<and> check_constraints
        (constrained_sample\<lparr> ineq_constraints := PList [],
                               eq_constraints := PList [PFun sample_count] \<rparr>) [0]
       = Return False
   \<and> check_constraints
        (constrained_sample\<lparr> ineq_constraints := PList [PFun sample_count],
                               eq_constraints := PList [PFun sample_count] \<rparr>) [0, 0]
       = Return True"
proof -
  note s = constrained_sample_eq
  have a1: "check_constraints constrained_sample [2] = Return False"
    using check_constraints_short_circuit
      [where self = constrained_sample and x = "[2]" and ?gs1.0 = "[]" and ?rs1.0 = "[]"
         and g = "PFun sample_ineq" and r = 1 and ?gs2.0 = "[]"]
    by (simp add: s)
  have a2: "check_constraints
        (constrained_sample\<lparr> ineq_constraints := PList [PFun sample_ineq, PInt 7],
                               eq_constraints := PInt 3 \<rparr>) [2] = Return False"
    using check_constraints_short_circuit
      [where self = "constrained_sample\<lparr> ineq_constraints := PList [PFun sample_ineq, PInt 7],
                               eq_constraints := PInt 3 \<rparr>"
         and x = "[2]" and ?gs1.0 = "[]" and ?rs1.0 = "[]"
         and g = "PFun sample_ineq" and r = 1 and ?gs2.0 = "[PInt 7]"]
    by simp
  have a3: "check_constraints constrained_sample [- 1 / 1024] = Return False"
    using check_constraints_short_circuit
      [where self = constrained_sample and x = "[- 1 / 1024]" and gs = "[PFun sample_ineq]"
         and rs = "[- 1 / 1024 - 1]" and ?hs1.0 = "[]" and ?ss1.0 = "[]"
         and h = "PFun sample_eq" and s = "- 1 / 1024" and ?hs2.0 = "[]"]
    by (simp add: s)
  have a4: "check_constraints constrained_sample [1 / 1024] = Return False"
    using check_constraints_short_circuit
      [where self = constrained_sample and x = "[1 / 1024]" and gs = "[PFun sample_ineq]"
         and rs = "[1 / 1024 - 1]" and ?hs1.0 = "[]" and ?ss1.0 = "[]"
         and h = "PFun sample_eq" and s = "1 / 1024" and ?hs2.0 = "[]"]
    by (simp add: s)
  have a5: "check_constraints constrained_sample [4722366482869646 / 2 ^ 72] = Return False"
    using check_constraints_short_circuit
      [where self = constrained_sample and x = "[4722366482869646 / 2 ^ 72]"
         and gs = "[PFun sample_ineq]" and rs = "[4722366482869646 / 2 ^ 72 - 1]"
         and ?hs1.0 = "[]" and ?ss1.0 = "[]"
         and h = "PFun sample_eq" and s = "4722366482869646 / 2 ^ 72" and ?hs2.0 = "[]"]
    by (simp add: s)
  have a6: "check_constraints constrained_sample [4722366482869645 / 2 ^ 72] = Return True"
    using check_constraints_short_circuit
      [where self = constrained_sample and x = "[4722366482869645 / 2 ^ 72]"
         and gs = "[PFun sample_ineq]" and rs = "[4722366482869645 / 2 ^ 72 - 1]"
         and hs = "[PFun sample_eq]" and ss = "[4722366482869645 / 2 ^ 72]"]
    by (simp add: s)
  have a7: "check_constraints constrained_sample [- 4722366482869645 / 2 ^ 72] = Return True"
    using check_constraints_short_circuit
      [where self = constrained_sample and x = "[- 4722366482869645 / 2 ^ 72]"
         and gs = "[PFun sample_ineq]" and rs = "[- 4722366482869645 / 2 ^ 72 - 1]"
         and hs = "[PFun sample_eq]" and ss = "[- 4722366482869645 / 2 ^ 72]"]
    by (simp add: s)
  have a8: "check_constraints constrained_sample [0] = Return True"
    using check_constraints_short_circuit
      [where self = constrained_sample and x = "[0]"
         and gs = "[PFun sample_ineq]" and rs = "[- 1]"
         and hs = "[PFun sample_eq]" and ss = "[0]"]
    by (simp add: s)
  have a9: "check_constraints (constrained_sample\<lparr> eq_constraints := PList [] \<rparr>) [1] = Return True"
    using check_constraints_short_circuit
      [where self = "constrained_sample\<lparr> eq_constraints := PList [] \<rparr>" and x = "[1]"
         and gs = "[PFun sample_ineq]" and rs = "[0]" and hs = "[]" and ss = "[]"]
    by (simp add: s)
  have a10: "check_constraints (constrained_sample\<lparr> eq_constraints := PList [] \<rparr>) [1025 / 1024]
       = Return False"
    using check_constraints_short_circuit
      [where self = "constrained_sample\<lparr> eq_constraints := PList [] \<rparr>" and x = "[1025 / 1024]"
         and ?gs1.0 = "[]" and ?rs1.0 = "[]"
         and g = "PFun sample_ineq" and r = "1 / 1024" and ?gs2.0 = "[]"]
    by (simp add: s)
  have a11: "check_constraints
        (constrained_sample\<lparr> ineq_constraints := PList [PFun sample_count] \<rparr>) [0, 0, 0]
       = Return False"
    using check_constraints_short_circuit
      [where self = "constrained_sample\<lparr> ineq_constraints := PList [PFun sample_count] \<rparr>"
         and x = "[0, 0, 0]" and ?gs1.0 = "[]" and ?rs1.0 = "[]"
         and g = "PFun sample_count" and r = 1 and ?gs2.0 = "[]"]
    by simp
  have a12: "check_constraints
        (constrained_sample\<lparr> ineq_constraints := PList [],
                               eq_constraints := PList [PFun sample_count] \<rparr>) [0]
       = Return False"
    using check_constraints_short_circuit
      [where self = "constrained_sample\<lparr> ineq_constraints := PList [],
                               eq_constraints := PList [PFun sample_count] \<rparr>"
         and x = "[0]" and gs = "[]" and rs = "[]" and ?hs1.0 = "[]" and ?ss1.0 = "[]"
         and h = "PFun sample_count" and s = "- 1" and ?hs2.0 = "[]"]
    by simp
  have a13: "check_constraints
        (constrained_sample\<lparr> ineq_constraints := PList [PFun sample_count],
                               eq_constraints := PList [PFun sample_count] \<rparr>) [0, 0]
       = Return True"
    using check_constraints_short_circuit
      [where self = "constrained_sample\<lparr> ineq_constraints := PList [PFun sample_count],
                               eq_constraints := PList [PFun sample_count] \<rparr>"
         and x = "[0, 0]" and gs = "[PFun sample_count]" and rs = "[0]"
         and hs = "[PFun sample_count]" and ss = "[0]"]
    by simp
  from a1 a2 a3 a4 a5 a6 a7 a8 a9 a10 a11 a12 a13 show ?thesis
    by blast
qed

text \<open>
  C3 does not hold of the code: \<^verbatim>\<open>build\<close> takes \<^verbatim>\<open>len(bounds)\<close> before it
  tests \<^verbatim>\<open>isinstance(self.bounds, list)\<close>, so for bounds that have no length, here
  the integer 5, it raises \<^verbatim>\<open>TypeError\<close> instead of printing a diagnostic and
  returning \<^verbatim>\<open>False\<close>; the objective and the bounds of the call are stored by then,
  and nothing is printed.
\<close>

theorem build_nonsized_bounds_raises:
  "build (init None) (PFun sample_objective) (PInt 5) PNone PNone =
     (Raise (Exn TypeError []),
      (init None)\<lparr> objective := PFun sample_objective, bounds := PInt 5 \<rparr>,
      [])"
  by (simp add: build_def missing_fields_eq py_or_def interp_type_error_def init_def Let_def)

text \<open>
  C4: a call to \<^verbatim>\<open>build\<close> with a callable objective, bounds that are a list of
  two-element lists or tuples, and constraint arguments that are absent or sequences
  of callables (so every required field is present and well-typed), on a solver
  whose verbosity is a number, returns \<^verbatim>\<open>True\<close> and stores the objective, the
  bounds, the constraint lists and \<^verbatim>\<open>dim = len(bounds)\<close>; it prints the summary
  exactly when \<^verbatim>\<open>verbosity >= 1\<close>.
\<close>

theorem build_success:
  assumes "callable obj" and "bnds = PList bs" and "list_all (\<lambda>p. \<not> bad_pair p) bs"
    and "py_iter (py_or ineq (PList [])) = Inr gs" and "list_all callable gs"
    and "py_iter (py_or eq (PList [])) = Inr hs" and "list_all callable hs"
    and "py_ge (verbosity self) 1 = Inr v"
  shows "build self obj bnds ineq eq =
     (Return True,
      self\<lparr> objective := obj, bounds := bnds,
             ineq_constraints := py_or ineq (PList []),
             eq_constraints := py_or eq (PList []),
             dim := PInt (int (length bs)) \<rparr>,
      if v then [SummaryHeader, SummaryDim (PInt (int (length bs))), SummaryMaxIter (max_iter self),
                 SummaryIneq (length gs), SummaryEq (length hs), SummaryBounds bnds,
                 SummaryFooter]
      else [])"
proof -
  let ?s = "self\<lparr> objective := obj, bounds := bnds,
             ineq_constraints := py_or ineq (PList []),
             eq_constraints := py_or eq (PList []),
             dim := PInt (int (length bs)) \<rparr>"
  have nm: "missing_fields (problem_data obj bnds ineq eq) = []"
    using assms(1,2) by (cases obj) (simp_all add: missing_fields_eq)
  have b: "build self obj bnds ineq eq = compliance ?s"
    using assms(2) nm by (simp add: build_def Let_def)
  have c: "compliance ?s = summary ?s"
    using assms by (intro compliance_ok[where bs=bs and gs=gs and hs=hs]) simp_all
  have d: "summary ?s = (Return True, ?s,
      if v then [SummaryHeader, SummaryDim (dim ?s), SummaryMaxIter (max_iter ?s),
                 SummaryIneq (length gs), SummaryEq (length hs), SummaryBounds (bounds ?s),
                 SummaryFooter]
      else [])"
    using assms by (intro summary_ok) simp_all
  show ?thesis
    unfolding b c d by simp
qed

text \<open>For bounds of length 3, \<^verbatim>\<open>dim == 3\<close> afterwards.\<close>

theorem build_success_witness:
  "build (init None) (PFun sample_objective) three_bounds
      (PList [PFun sample_ineq]) PNone =
     (Return True,
      (init None)\<lparr> objective := PFun sample_objective, bounds := three_bounds,
             ineq_constraints := PList [PFun sample_ineq],
             eq_constraints := PList [],
             dim := PInt 3 \<rparr>,
      [SummaryHeader, SummaryDim (PInt 3), SummaryMaxIter (PInt 200),
       SummaryIneq 1, SummaryEq 0, SummaryBounds three_bounds, SummaryFooter])"
proof -
  have v: "py_ge (verbosity (init None :: real list solver)) 1 = Inr True"
    and m: "max_iter (init None :: real list solver) = PInt 200"
    by (simp_all add: init_def DEFAULTS_def subscript_def hyper_or_empty_def py_ge_def)
  have b: "three_bounds = PList [PTuple [PInt 0, PInt 1], PList [PInt 0, PInt 1],
                         PTuple [PFloat (Finite (- 5)), PFloat (Finite 5)]]"
    by (simp add: three_bounds_def)
  show ?thesis
    using build_success [where obj = "PFun sample_objective" and bnds = three_bounds
        and bs = "[PTuple [PInt 0, PInt 1], PList [PInt 0, PInt 1],
                   PTuple [PFloat (Finite (- 5)), PFloat (Finite 5)]]"
        and ineq = "PList [PFun sample_ineq]" and gs = "[PFun sample_ineq]"
        and eq = PNone and hs = "[]" and self = "init None" and v = True] v m b
    by (simp add: bad_pair_def py_or_def)
qed

text \<open>
  C5, as stated, fails: a lifecycle on which no problem was ever built successfully
  may still hold an objective. \<^verbatim>\<open>build(5, [])\<close> on a fresh solver returns
  \<^verbatim>\<open>False\<close>, its objective not being callable, but has stored it; a
  \<^verbatim>\<open>compute()\<close> without arguments then passes the test of
  \<^verbatim>\<open>self.objective is None\<close> and raises \<^verbatim>\<open>NotImplementedError\<close>.
\<close>

theorem compute_after_failed_build:
  "outcome_of (build (init None :: real list solver) (PInt 5) (PList []) PNone PNone) = Return False
   \<and> outcome_of (compute failed_sample PNone PNone PNone PNone)
       = Raise (Exn NotImplementedError must_override_msg)
   \<and> outcome_of (compute failed_sample PNone PNone PNone PNone)
       \<noteq> Raise (Exn ValueError no_problem_msg)"
  by (simp add: failed_sample_def failed_sample_build outcome_of_def solver_of_def
      compute_def run_def)

text \<open>
  C5, amended: a freshly constructed solver has no objective, and every call to
  \<^verbatim>\<open>compute\<close> without an objective argument on a solver whose stored objective is
  \<^verbatim>\<open>None\<close> raises \<^verbatim>\<open>ValueError\<close> with the directive to call \<^verbatim>\<open>build\<close>,
  changes nothing and prints nothing. A \<^verbatim>\<open>build\<close> that fails for a missing
  required field keeps the solver in that state. The failure is an exception, where
  a validation failure is the value \<^verbatim>\<open>False\<close> returned by \<^verbatim>\<open>build\<close>.
\<close>

theorem compute_unbuilt:
  fixes self :: "'x solver" and hp :: "(string \<rightharpoonup> 'x pyval) option"
  shows "is_None (objective (init hp))
   \<and> (is_None (objective self) \<longrightarrow>
        compute self PNone bnds ineq eq = (Raise (Exn ValueError no_problem_msg), self, []))
   \<and> (is_None (objective self) \<and> missing_fields (problem_data obj bnds ineq eq) \<noteq> [] \<longrightarrow>
        outcome_of (build self obj bnds ineq eq) = Return False
        \<and> is_None (objective (solver_of (build self obj bnds ineq eq))))"
  by (simp add: init_objective compute_def run_unbuilt build_missing outcome_of_def solver_of_def)

theorem compute_unbuilt_witness:
  "compute (init None :: real list solver) PNone PNone PNone PNone
     = (Raise (Exn ValueError no_problem_msg), init None, [])
   \<and> outcome_of (build (init None :: real list solver) (PFun sample_objective) PNone PNone PNone)
       = Return False
   \<and> is_None (objective (solver_of
         (build (init None :: real list solver) (PFun sample_objective) PNone PNone PNone)))"
proof -
  have m: "missing_fields (problem_data (PFun sample_objective) PNone PNone
             (PNone :: real list pyval)) \<noteq> []"
    by (simp add: missing_fields_eq)
  have n: "is_None (objective (init None :: real list solver))"
    by (simp add: init_objective)
  show ?thesis
    using compute_unbuilt [where self = "init None :: real list solver" and bnds = PNone
        and ineq = PNone and eq = PNone and obj = "PFun sample_objective"] m n
    by blast
qed

text \<open>
  C6, as stated, fails: the exception that \<^verbatim>\<open>compute\<close> raises when its implicit
  build returned \<^verbatim>\<open>False\<close> and the one it raises on a solver that was never built
  are both of class \<^verbatim>\<open>ValueError\<close>.
\<close>

theorem build_failed_same_class:
  "outcome_of (compute (init None :: real list solver) (PInt 5) (PList []) PNone PNone)
     = Raise (Exn ValueError build_failed_msg)
   \<and> outcome_of (compute (init None :: real list solver) PNone PNone PNone PNone)
     = Raise (Exn ValueError no_problem_msg)
   \<and> raised_class (outcome_of (compute (init None :: real list solver) (PInt 5) (PList []) PNone PNone))
     = raised_class (outcome_of (compute (init None :: real list solver) PNone PNone PNone PNone))"
  by (simp add: compute_def failed_sample_build run_unbuilt init_objective outcome_of_def)

text \<open>
  C6, amended: a call to \<^verbatim>\<open>compute\<close> with an objective argument that is not
  \<^verbatim>\<open>None\<close>, whose implicit \<^verbatim>\<open>build\<close> returns \<^verbatim>\<open>False\<close>, raises
  \<^verbatim>\<open>ValueError\<close> with the message \<^verbatim>\<open>Build failed: invalid problem specification.\<close>
  and leaves the solver and the output as that \<^verbatim>\<open>build\<close> left them. The exception
  has the class of the one raised for a solver that was never built and differs from
  it in the message only.
\<close>

theorem compute_build_failed:
  "\<not> is_None obj \<and> outcome_of (build self obj bnds ineq eq) = Return False \<longrightarrow>
     compute self obj bnds ineq eq =
       (Raise (Exn ValueError build_failed_msg), solver_of (build self obj bnds ineq eq),
        printed_of (build self obj bnds ineq eq))
     \<and> exn_class (Exn ValueError build_failed_msg) = exn_class (Exn ValueError no_problem_msg)
     \<and> exn_msg (Exn ValueError build_failed_msg) \<noteq> exn_msg (Exn ValueError no_problem_msg)"
proof
  assume a: "\<not> is_None obj \<and> outcome_of (build self obj bnds ineq eq) = Return False"
  obtain r s out where b: "build self obj bnds ineq eq = (r, s, out)"
    by (cases "build self obj bnds ineq eq") auto
  with a have r: "r = Return False" by (simp add: outcome_of_def)
  show "compute self obj bnds ineq eq =
       (Raise (Exn ValueError build_failed_msg), solver_of (build self obj bnds ineq eq),
        printed_of (build self obj bnds ineq eq))
     \<and> exn_class (Exn ValueError build_failed_msg) = exn_class (Exn ValueError no_problem_msg)
     \<and> exn_msg (Exn ValueError build_failed_msg) \<noteq> exn_msg (Exn ValueError no_problem_msg)"
    using a b r by (simp add: compute_def solver_of_def printed_of_def msgs_differ)
qed

theorem compute_build_failed_witness:
  "compute built_sample (PInt 5) unit_interval PNone PNone =
     (Raise (Exn ValueError build_failed_msg),
      built_sample\<lparr> objective := PInt 5, bounds := unit_interval,
                       ineq_constraints := PList [], eq_constraints := PList [],
                       dim := PInt 1 \<rparr>,
      [ObjectiveNotCallable])"
proof -
  have b: "build built_sample (PInt 5) unit_interval PNone PNone =
      (Return False,
       built_sample\<lparr> objective := PInt 5, bounds := unit_interval,
                       ineq_constraints := PList [], eq_constraints := PList [],
                       dim := PInt 1 \<rparr>,
       [ObjectiveNotCallable])"
    by (simp add: build_def missing_fields_eq compliance_def py_or_def unit_interval_def Let_def)
  show ?thesis
    using compute_build_failed [of "PInt 5" built_sample unit_interval PNone PNone]
    by (simp add: b outcome_of_def solver_of_def printed_of_def)
qed

text \<open>
  C7: after a \<^verbatim>\<open>build\<close> that returned \<^verbatim>\<open>True\<close>, \<^verbatim>\<open>compute\<close> of the base
  class raises \<^verbatim>\<open>NotImplementedError\<close>, both when called without an objective on
  the built solver and when it is given the problem and builds it itself; the class
  of that exception is not the \<^verbatim>\<open>ValueError\<close> of the two other failures of
  \<^verbatim>\<open>compute\<close>, and a validation failure is a returned \<^verbatim>\<open>False\<close>.
\<close>

theorem compute_after_build:
  "outcome_of (build self obj bnds ineq eq) = Return True \<longrightarrow>
     compute (solver_of (build self obj bnds ineq eq)) PNone bnds' ineq' eq'
       = (Raise (Exn NotImplementedError must_override_msg),
          solver_of (build self obj bnds ineq eq), [])
     \<and> compute self obj bnds ineq eq
       = (Raise (Exn NotImplementedError must_override_msg),
          solver_of (build self obj bnds ineq eq), printed_of (build self obj bnds ineq eq))
     \<and> exn_class (Exn NotImplementedError must_override_msg) \<noteq> ValueError"
proof
  assume a: "outcome_of (build self obj bnds ineq eq) = Return True"
  from build_True_callable [OF a]
  have c: "\<not> is_None obj"
    and d: "\<not> is_None (objective (solver_of (build self obj bnds ineq eq)))"
    by (simp_all add: callable_not_None)
  obtain r s out where b: "build self obj bnds ineq eq = (r, s, out)"
    by (cases "build self obj bnds ineq eq") auto
  with a have r: "r = Return True" by (simp add: outcome_of_def)
  from d b have e: "\<not> is_None (objective s)" by (simp add: solver_of_def)
  show "compute (solver_of (build self obj bnds ineq eq)) PNone bnds' ineq' eq'
       = (Raise (Exn NotImplementedError must_override_msg),
          solver_of (build self obj bnds ineq eq), [])
     \<and> compute self obj bnds ineq eq
       = (Raise (Exn NotImplementedError must_override_msg),
          solver_of (build self obj bnds ineq eq), printed_of (build self obj bnds ineq eq))
     \<and> exn_class (Exn NotImplementedError must_override_msg) \<noteq> ValueError"
    using b c e r by (simp add: compute_def run_built solver_of_def printed_of_def)
qed

theorem compute_after_build_witness:
  "outcome_of (build (init None) (PFun sample_objective) unit_interval PNone PNone) = Return True
   \<and> outcome_of (compute built_sample PNone PNone PNone PNone)
       = Raise (Exn NotImplementedError must_override_msg)
   \<and> outcome_of (compute (init None) (PFun sample_objective) unit_interval PNone PNone)
       = Raise (Exn NotImplementedError must_override_msg)"
proof -
  have a: "outcome_of (build (init None) (PFun sample_objective) unit_interval PNone PNone) = Return True"
    by (simp add: built_sample_eq outcome_of_def)
  show ?thesis
    using compute_after_build [of "init None" "PFun sample_objective" unit_interval PNone PNone
        PNone PNone PNone] a
    by (simp add: built_sample_def outcome_of_def)
qed

text \<open>
  C8: the merged hyperparameters \<^verbatim>\<open>params\<close> hold, at every key, the supplied value
  when the configuration supplies one and the default otherwise; the defaults are
  \<^verbatim>\<open>max_iter = 200\<close>, \<^verbatim>\<open>max_stall_iter = inf\<close>, \<^verbatim>\<open>verbosity = 1\<close> and
  \<^verbatim>\<open>seed = None\<close>, and no other key has a default. A configuration that is
  \<^verbatim>\<open>None\<close> supplies nothing. The attributes \<^verbatim>\<open>max_iter\<close>, \<^verbatim>\<open>verbosity\<close> and
  \<^verbatim>\<open>seed\<close> are the merged entries.
\<close>

theorem merged_params:
  fixes hp :: "(string \<rightharpoonup> 'x pyval) option"
  shows "params (init hp) k = (case hyper_or_empty hp k of Some v \<Rightarrow> Some v | None \<Rightarrow> DEFAULTS k)
   \<and> (DEFAULTS :: string \<rightharpoonup> 'x pyval) ''max_iter'' = Some (PInt 200)
   \<and> (DEFAULTS :: string \<rightharpoonup> 'x pyval) ''max_stall_iter'' = Some (PFloat PosInf)
   \<and> (DEFAULTS :: string \<rightharpoonup> 'x pyval) ''verbosity'' = Some (PInt 1)
   \<and> (DEFAULTS :: string \<rightharpoonup> 'x pyval) ''seed'' = Some PNone
   \<and> dom (DEFAULTS :: string \<rightharpoonup> 'x pyval)
       = {''max_iter'', ''max_stall_iter'', ''verbosity'', ''seed''}
   \<and> hyper_or_empty None = (Map.empty :: string \<rightharpoonup> 'x pyval)
   \<and> hyper_or_empty (Some m) = (m :: string \<rightharpoonup> 'x pyval)
   \<and> Some (max_iter (init hp)) = params (init hp) ''max_iter''
   \<and> Some (verbosity (init hp)) = params (init hp) ''verbosity''
   \<and> Some (seed (init hp)) = params (init hp) ''seed''"
proof -
  have p: "params (init hp) = DEFAULTS ++ hyper_or_empty hp"
    by (simp add: init_def Let_def)
  have d: "\<And>k. (DEFAULTS ++ hyper_or_empty hp) k
      = (case hyper_or_empty hp k of Some v \<Rightarrow> Some v | None \<Rightarrow> DEFAULTS k)"
    by (simp add: map_add_def split: option.splits)
  have e: "\<And>k. k \<in> dom (DEFAULTS :: string \<rightharpoonup> 'x pyval) \<Longrightarrow>
      Some (subscript (DEFAULTS ++ hyper_or_empty hp) k) = (DEFAULTS ++ hyper_or_empty hp) k"
    by (auto simp add: subscript_def map_add_def split: option.splits)
  have dd: "dom (DEFAULTS :: string \<rightharpoonup> 'x pyval)
       = {''max_iter'', ''max_stall_iter'', ''verbosity'', ''seed''}"
    by (auto simp add: DEFAULTS_def)
  have x: "Some (max_iter (init hp)) = params (init hp) ''max_iter''"
    "Some (verbosity (init hp)) = params (init hp) ''verbosity''"
    "Some (seed (init hp)) = params (init hp) ''seed''"
    using e [of "''max_iter''"] e [of "''verbosity''"] e [of "''seed''"] dd
    by (simp_all add: init_def Let_def)
  have c: "params (init hp) k
      = (case hyper_or_empty hp k of Some v \<Rightarrow> Some v | None \<Rightarrow> DEFAULTS k)"
    unfolding p by (rule d)
  have v: "(DEFAULTS :: string \<rightharpoonup> 'x pyval) ''max_iter'' = Some (PInt 200)"
    "(DEFAULTS :: string \<rightharpoonup> 'x pyval) ''max_stall_iter'' = Some (PFloat PosInf)"
    "(DEFAULTS :: string \<rightharpoonup> 'x pyval) ''verbosity'' = Some (PInt 1)"
    "(DEFAULTS :: string \<rightharpoonup> 'x pyval) ''seed'' = Some PNone"
    by (simp_all add: DEFAULTS_def)
  have h: "hyper_or_empty None = (Map.empty :: string \<rightharpoonup> 'x pyval)"
    "hyper_or_empty (Some m) = m"
    by (simp_all add: hyper_or_empty_def)
  from c v dd h x show ?thesis
    by blast
qed

theorem merged_params_witness:
  "params (init (Some [''max_iter'' \<mapsto> PInt 50, ''seed'' \<mapsto> PInt 7])
      :: real list solver) ''max_iter'' = Some (PInt 50)
   \<and> params (init (Some [''max_iter'' \<mapsto> PInt 50, ''seed'' \<mapsto> PInt 7])
      :: real list solver) ''max_stall_iter'' = Some (PFloat PosInf)
   \<and> params (init (Some [''max_iter'' \<mapsto> PInt 50, ''seed'' \<mapsto> PInt 7])
      :: real list solver) ''verbosity'' = Some (PInt 1)
   \<and> params (init (Some [''max_iter'' \<mapsto> PInt 50, ''seed'' \<mapsto> PInt 7])
      :: real list solver) ''seed'' = Some (PInt 7)
   \<and> max_iter (init (Some [''max_iter'' \<mapsto> PInt 50, ''seed'' \<mapsto> PInt 7])
      :: real list solver) = PInt 50"
  using merged_params [where ?'x = "real list", of "Some [''max_iter'' \<mapsto> PInt 50, ''seed'' \<mapsto> PInt 7]" "''max_iter''"]
    merged_params [where ?'x = "real list", of "Some [''max_iter'' \<mapsto> PInt 50, ''seed'' \<mapsto> PInt 7]" "''max_stall_iter''"]
    merged_params [where ?'x = "real list", of "Some [''max_iter'' \<mapsto> PInt 50, ''seed'' \<mapsto> PInt 7]" "''verbosity''"]
    merged_params [where ?'x = "real list", of "Some [''max_iter'' \<mapsto> PInt 50, ''seed'' \<mapsto> PInt 7]" "''seed''"]
  by (simp add: hyper_or_empty_def)

text \<open>
  C9, as stated, fails: \<^verbatim>\<open>__init__\<close> extracts \<^verbatim>\<open>max_iter\<close>, \<^verbatim>\<open>verbosity\<close> and
  \<^verbatim>\<open>seed\<close> from the merged dictionary into attributes, and not
  \<^verbatim>\<open>max_stall_iter\<close>: reading \<^verbatim>\<open>solver.max_stall_iter\<close> raises
  \<^verbatim>\<open>AttributeError\<close>, where \<^verbatim>\<open>solver.max_iter\<close> reads 200.
\<close>

theorem max_stall_iter_not_attribute:
  "getattr (init None :: real list solver) ''max_stall_iter'' = Inl (Exn AttributeError [])
   \<and> getattr (init None :: real list solver) ''max_stall_iter'' \<noteq> Inr (Value (PFloat PosInf))
   \<and> getattr (init None :: real list solver) ''max_iter'' = Inr (Value (PInt 200))"
  by (simp add: getattr_def instance_dict_def class_dict_def init_def DEFAULTS_def
      hyper_or_empty_def subscript_def Let_def)

text \<open>
  C9, amended: after construction the solver has the attributes \<^verbatim>\<open>objective\<close>,
  \<^verbatim>\<open>bounds\<close>, \<^verbatim>\<open>dim\<close> (all \<^verbatim>\<open>None\<close>), \<^verbatim>\<open>ineq_constraints\<close>,
  \<^verbatim>\<open>eq_constraints\<close> (both \<^verbatim>\<open>[]\<close>), \<^verbatim>\<open>max_iter\<close> and \<^verbatim>\<open>seed\<close> (the supplied
  value or the default). \<^verbatim>\<open>max_stall_iter\<close> is not an attribute; it is read
  through the attribute \<^verbatim>\<open>params\<close>, as \<^verbatim>\<open>params["max_stall_iter"]\<close>, which is the
  supplied value, or \<^verbatim>\<open>inf\<close> when none was supplied.
\<close>

theorem attributes_after_init:
  fixes hp :: "(string \<rightharpoonup> 'x pyval) option"
  shows "getattr (init hp) ''objective'' = Inr (Value PNone)
   \<and> getattr (init hp) ''bounds'' = Inr (Value PNone)
   \<and> getattr (init hp) ''dim'' = Inr (Value PNone)
   \<and> getattr (init hp) ''ineq_constraints'' = Inr (Value (PList []))
   \<and> getattr (init hp) ''eq_constraints'' = Inr (Value (PList []))
   \<and> getattr (init hp) ''max_iter''
       = Inr (Value (case hyper_or_empty hp ''max_iter'' of Some v \<Rightarrow> v | None \<Rightarrow> PInt 200))
   \<and> getattr (init hp) ''seed''
       = Inr (Value (case hyper_or_empty hp ''seed'' of Some v \<Rightarrow> v | None \<Rightarrow> PNone))
   \<and> getattr (init hp) ''max_stall_iter'' = Inl (Exn AttributeError [])
   \<and> getattr (init hp) ''params'' = Inr (Dict (params (init hp)))
   \<and> params (init hp) ''max_stall_iter''
       = Some (case hyper_or_empty hp ''max_stall_iter'' of Some v \<Rightarrow> v | None \<Rightarrow> PFloat PosInf)"
  by (simp add: getattr_def instance_dict_def class_dict_def init_def DEFAULTS_def
      subscript_def map_add_def Let_def split: option.splits)

theorem attributes_after_init_witness:
  "getattr (init None :: real list solver) ''max_stall_iter'' = Inl (Exn AttributeError [])
   \<and> params (init None :: real list solver) ''max_stall_iter'' = Some (PFloat PosInf)
   \<and> params (init (Some [''max_stall_iter'' \<mapsto> PInt 25]) :: real list solver) ''max_stall_iter''
       = Some (PInt 25)"
  using attributes_after_init [where ?'x = "real list", of None]
    attributes_after_init [where ?'x = "real list", of "Some [''max_stall_iter'' \<mapsto> PInt 25]"]
  by (simp add: hyper_or_empty_def)

text \<open>
  C10: on a freshly constructed solver, on which \<^verbatim>\<open>build\<close> has never been called,
  \<^verbatim>\<open>check_constraints(x)\<close> returns \<^verbatim>\<open>True\<close> for every \<open>x\<close> and every
  hyperparameter dictionary, both constraint lists being empty after \<^verbatim>\<open>__init__\<close>.
\<close>

theorem check_constraints_fresh:
  "check_constraints (init hp) x = Return True
   \<and> ineq_constraints (init hp) = PList [] \<and> eq_constraints (init hp) = PList []"
  by (simp add: check_constraints_def for_loop_def init_def Let_def)

theorem check_constraints_fresh_witness:
  "check_constraints (init None) [1 / 2 :: real] = Return True"
  using check_constraints_fresh [of None "[1 / 2 :: real]"] by simp

end
